theory Spec2Isabelle
  imports Complex_Main "HOL-Library.AList"
begin

section \<open>The Snuba time-series backend (sentry/tsdb/snuba.py)\<close>

text \<open>
  A shallow embedding of \<^verbatim>\<open>SnubaTSDB\<close>. Python values are dynamically typed, so the
  values that travel through the code (caller keys, JSON rows, nested results) are one
  datatype. Exceptions are values of \<open>error\<close>, and every function that can raise
  returns \<open>error + 'a\<close> with \<open>Inl\<close> for the exception. A Python dict is an association
  list in insertion order with distinct keys; the iteration order of a Python set is
  unspecified, and a set is listed here without duplicates in some fixed order. No
  theorem below depends on the order of a set or of the entries of a dict.
\<close>

subsection \<open>Values and exceptions\<close>

datatype pyval =
    PNone
  | PInt int
  | PStr string
  | PList "pyval list"
  | PTuple "pyval list"
  | PDict "(pyval \<times> pyval) list"

datatype error =
    TypeError
  | KeyError
  | AttributeError
  | AssertionError
  | ValueError
  | DoesNotExist
  | TransportError

type_synonym row = "(string \<times> pyval) list"

text \<open>Running a list of computations in order; the first exception wins.\<close>

fun sequence_sum :: "('e + 'a) list \<Rightarrow> 'e + 'a list" where
  "sequence_sum [] = Inr []"
| "sequence_sum (Inl e # _) = Inl e"
| "sequence_sum (Inr x # xs) =
     (case sequence_sum xs of Inl e \<Rightarrow> Inl e | Inr ys \<Rightarrow> Inr (x # ys))"

text \<open>
  \<^verbatim>\<open>hash(x)\<close> succeeds on None, integers, strings and tuples of hashable values, and
  raises TypeError on lists and dicts.
\<close>

fun hashable :: "pyval \<Rightarrow> bool" where
  "hashable PNone = True"
| "hashable (PInt _) = True"
| "hashable (PStr _) = True"
| "hashable (PList _) = False"
| "hashable (PTuple xs) = list_all hashable xs"
| "hashable (PDict _) = False"

text \<open>Truth value of an object, as \<^verbatim>\<open>if ids\<close> tests it.\<close>

fun truthy :: "pyval \<Rightarrow> bool" where
  "truthy PNone = False"
| "truthy (PInt i) = (i \<noteq> 0)"
| "truthy (PStr s) = (s \<noteq> [])"
| "truthy (PList xs) = (xs \<noteq> [])"
| "truthy (PTuple xs) = (xs \<noteq> [])"
| "truthy (PDict kvs) = (kvs \<noteq> [])"

text \<open>
  \<^verbatim>\<open>set(v)\<close>: the elements of an iterable, without duplicates. Iterating None or an
  integer raises TypeError, and so does an unhashable element.
\<close>

fun py_set :: "pyval \<Rightarrow> error + pyval list" where
  "py_set PNone = Inl TypeError"
| "py_set (PInt _) = Inl TypeError"
| "py_set (PStr s) = Inr (remdups (map (\<lambda>c. PStr [c]) s))"
| "py_set (PList xs) = (if list_all hashable xs then Inr (remdups xs) else Inl TypeError)"
| "py_set (PTuple xs) = (if list_all hashable xs then Inr (remdups xs) else Inl TypeError)"
| "py_set (PDict kvs) = Inr (remdups (map fst kvs))"

text \<open>
  \<^verbatim>\<open>set.union(*sets)\<close> and \<^verbatim>\<open>set.intersection(*sets)\<close> are unbound methods: called
  with no argument at all they raise TypeError (the descriptor needs an argument).
\<close>

fun set_union :: "pyval list list \<Rightarrow> error + pyval list" where
  "set_union [] = Inl TypeError"
| "set_union (s # ss) = Inr (remdups (concat (s # ss)))"

fun set_intersection :: "pyval list list \<Rightarrow> error + pyval list" where
  "set_intersection [] = Inl TypeError"
| "set_intersection (s # ss) = Inr (filter (\<lambda>x. list_all (\<lambda>t. x \<in> set t) ss) s)"

text \<open>\<^verbatim>\<open>dict(pairs)\<close>: a later pair with the same key replaces the value in place.\<close>

definition py_dict :: "('k \<times> 'v) list \<Rightarrow> ('k \<times> 'v) list" where
  "py_dict kvs = foldl (\<lambda>d (k, v). AList.update k v d) [] kvs"

text \<open>\<^verbatim>\<open>d[k]\<close> on a row: KeyError when the key is missing.\<close>

definition getitem :: "row \<Rightarrow> string \<Rightarrow> error + pyval" where
  "getitem d k = (case map_of d k of None \<Rightarrow> Inl KeyError | Some v \<Rightarrow> Inr v)"

text \<open>\<^verbatim>\<open>inter.setdefault(k, []).append(v)\<close>\<close>

fun setdefault_append :: "'k \<Rightarrow> 'v \<Rightarrow> ('k \<times> 'v list) list \<Rightarrow> ('k \<times> 'v list) list" where
  "setdefault_append k v [] = [(k, [v])]"
| "setdefault_append k v ((k', vs) # rest) =
     (if k = k' then (k', vs @ [v]) # rest else (k', vs) # setdefault_append k v rest)"

subsection \<open>The model registry\<close>

text \<open>
  Modelled from the spec: the enumeration \<^verbatim>\<open>TSDBModel\<close> is declared in
  \<^verbatim>\<open>sentry.tsdb.base\<close>, which is not among the sources. The members that
  \<^verbatim>\<open>model_columns\<close> names are constructors of their own; \<open>TSDBModel_unlisted n\<close>
  stands for any other member of the closed set.
\<close>

datatype TSDBModel =
    TSDBModel_project
  | TSDBModel_group
  | TSDBModel_release
  | TSDBModel_users_affected_by_group
  | TSDBModel_users_affected_by_project
  | TSDBModel_frequent_environments_by_group
  | TSDBModel_frequent_releases_by_group
  | TSDBModel_frequent_issues_by_project
  | TSDBModel_unlisted nat

fun model_columns :: "TSDBModel \<Rightarrow> (string option \<times> string option) option" where
  "model_columns TSDBModel_project = Some (Some ''project_id'', None)"
| "model_columns TSDBModel_group = Some (Some ''issue'', None)"
| "model_columns TSDBModel_release = Some (Some ''release'', None)"
| "model_columns TSDBModel_users_affected_by_group = Some (Some ''issue'', Some ''user_id'')"
| "model_columns TSDBModel_users_affected_by_project = Some (Some ''project_id'', Some ''user_id'')"
| "model_columns TSDBModel_frequent_environments_by_group = Some (Some ''issue'', Some ''environment'')"
| "model_columns TSDBModel_frequent_releases_by_group = Some (Some ''issue'', Some ''release'')"
| "model_columns TSDBModel_frequent_issues_by_project = Some (Some ''project_id'', Some ''issue'')"
| "model_columns (TSDBModel_unlisted _) = None"

subsection \<open>Key normalisation\<close>

definition normalize_keys :: "pyval \<Rightarrow> error + (pyval \<times> pyval)" where
  "normalize_keys items =
     (case items of
        PList xs \<Rightarrow> Inr (PList xs, PNone)
      | PDict kvs \<Rightarrow>
          (case sequence_sum (map (\<lambda>(k, v). py_set v) kvs) of
             Inl e \<Rightarrow> Inl e
           | Inr sets \<Rightarrow>
               (case set_union sets of
                  Inl e \<Rightarrow> Inl e
                | Inr u \<Rightarrow> Inr (PList (map fst kvs), PList u)))
      | _ \<Rightarrow> Inr (PNone, PNone))"

subsection \<open>Nesting\<close>

text \<open>The loop of \<^verbatim>\<open>nest_groups\<close> that files each row under its value of column \<open>g\<close>.\<close>

fun group_rows :: "string \<Rightarrow> row list \<Rightarrow> (pyval \<times> row list) list \<Rightarrow> error + (pyval \<times> row list) list" where
  "group_rows g [] intr = Inr intr"
| "group_rows g (d # data) intr =
     (case map_of d g of
        None \<Rightarrow> Inl KeyError
      | Some k \<Rightarrow>
          if hashable k then group_rows g data (setdefault_append k d intr)
          else Inl TypeError)"

fun nest_groups :: "row list \<Rightarrow> string list \<Rightarrow> error + pyval" where
  "nest_groups data [] = (case data of [] \<Rightarrow> Inr PNone | d # _ \<Rightarrow> getitem d ''aggregate'')"
| "nest_groups data (g # rest) =
     (case group_rows g data [] of
        Inl e \<Rightarrow> Inl e
      | Inr intr \<Rightarrow>
          (case sequence_sum
                  (map (\<lambda>(k, v). case nest_groups v rest of
                                    Inl e \<Rightarrow> Inl e
                                  | Inr r \<Rightarrow> Inr (k, r)) intr) of
             Inl e \<Rightarrow> Inl e
           | Inr kvs \<Rightarrow> Inr (PDict kvs)))"

subsection \<open>Collaborators\<close>

text \<open>
  What the code reaches outside itself is a parameter: \<^verbatim>\<open>datetime.isoformat\<close>, the
  \<^verbatim>\<open>Environment\<close> table (\<open>None\<close> where \<^verbatim>\<open>Environment.objects.get\<close> raises
  DoesNotExist), the \<^verbatim>\<open>GroupHash\<close> query of \<^verbatim>\<open>get_project_issues\<close>, the HTTP round
  trip with the decoding of its body (\<open>None\<close> where \<^verbatim>\<open>requests.post\<close> or
  \<^verbatim>\<open>json.loads\<close> raises) and \<^verbatim>\<open>int(to_timestamp(parse_datetime(s)))\<close> (\<open>None\<close> where
  the string does not parse). A response has the shape of the wire contract: the names of
  the column descriptors in \<open>meta\<close>, and the rows in \<open>data\<close>.
\<close>

record response =
  meta :: "string list"
  data :: "row list"

record 'dt world =
  isoformat :: "'dt \<Rightarrow> string"
  environment_names :: "int \<Rightarrow> string option"
  group_hashes :: "pyval list \<Rightarrow> (int \<times> string) list"
  snuba_post :: "(string \<times> pyval) list \<Rightarrow> response option"
  parse_timestamp :: "string \<Rightarrow> int option"

definition get_environment_name :: "'dt world \<Rightarrow> int \<Rightarrow> error + string" where
  "get_environment_name w environment_id =
     (case environment_names w environment_id of
        None \<Rightarrow> Inl DoesNotExist
      | Some name \<Rightarrow> Inr name)"

definition get_project_issues :: "'dt world \<Rightarrow> pyval \<Rightarrow> (int \<times> string list) list" where
  "get_project_issues w project_ids =
     (let ids = (case project_ids of PList xs \<Rightarrow> xs | x \<Rightarrow> [x])
      in foldl (\<lambda>result (gid, hsh). setdefault_append gid hsh result) [] (group_hashes w ids))"

definition get_project_ids :: "string option \<Rightarrow> pyval \<Rightarrow> pyval" where
  "get_project_ids model model_ids =
     (if model = Some ''project_id'' then model_ids else PList [])"

subsection \<open>Building the request\<close>

type_synonym condition = "string \<times> string \<times> pyval"

definition key_conditions :: "(string option \<times> pyval) list \<Rightarrow> condition list" where
  "key_conditions keys_map =
     concat (map (\<lambda>(keycol, v).
                    case keycol of
                      None \<Rightarrow> []
                    | Some c \<Rightarrow> if v \<noteq> PNone then [(c, ''IN'', v)] else []) keys_map)"

definition encode_condition :: "condition \<Rightarrow> pyval" where
  "encode_condition c = (case c of (col, op, v) \<Rightarrow> PTuple [PStr col, PStr op, v])"

definition encode_issue :: "int \<times> string list \<Rightarrow> pyval" where
  "encode_issue i = (case i of (gid, hs) \<Rightarrow> PTuple [PInt gid, PList (map PStr hs)])"

text \<open>
  \<^verbatim>\<open>get_data\<close> up to the request (lines 61 to 111) is modelled in the order its
  statements run, so that the first exception is the one the code raises. The stages are
  functions of their own: the group-by list with the count rewrite (lines 74 to 83), the
  environment condition (lines 85 and 86), the project ids (lines 91 and 92), the issues
  (lines 96 to 98) and the request dict (lines 101 to 111).
\<close>

definition groupby_columns ::
  "string option \<Rightarrow> string option \<Rightarrow> string \<Rightarrow> bool \<Rightarrow> bool \<Rightarrow> string list \<times> string option" where
  "groupby_columns model_group model_aggregate aggregation group_on_model group_on_time =
     (let groupby = (case model_group of
                       Some g \<Rightarrow> if group_on_model then [g] else []
                     | None \<Rightarrow> [])
                    @ (if group_on_time then [''time''] else [])
      in case model_aggregate of
           Some a \<Rightarrow> if aggregation = ''count'' then (groupby @ [a], None)
                     else (groupby, Some a)
         | None \<Rightarrow> (groupby, None))"

definition environment_condition :: "'dt world \<Rightarrow> int option \<Rightarrow> condition list \<Rightarrow> error + condition list" where
  "environment_condition w environment_id conditions =
     (case environment_id of
        None \<Rightarrow> Inr conditions
      | Some eid \<Rightarrow>
          (case get_environment_name w eid of
             Inl e \<Rightarrow> Inl e
           | Inr name \<Rightarrow> Inr (conditions @ [(''environment'', ''='', PStr name)])))"

definition resolve_project_ids :: "(string option \<times> pyval) list \<Rightarrow> error + pyval list" where
  "resolve_project_ids keys_map =
     (let project_ids = map (\<lambda>(k, ids). get_project_ids k ids) keys_map
      in case sequence_sum (map py_set (filter truthy project_ids)) of
           Inl e \<Rightarrow> Inl e
         | Inr sets \<Rightarrow> set_intersection sets)"

definition references_issues :: "string list \<Rightarrow> string option \<Rightarrow> condition list \<Rightarrow> bool" where
  "references_issues groupby model_aggregate conditions =
     (Some ''issue'' \<in> set (map Some groupby @ [model_aggregate] @ map (\<lambda>c. Some (fst c)) conditions))"

definition assemble_request ::
  "'dt world \<Rightarrow> 'dt option \<Rightarrow> 'dt option \<Rightarrow> condition list \<Rightarrow> string list \<Rightarrow> pyval list \<Rightarrow> string
     \<Rightarrow> string option \<Rightarrow> int option \<Rightarrow> pyval \<Rightarrow> error + (string \<times> pyval) list" where
  "assemble_request w start end' conditions groupby project_ids aggregation model_aggregate rollup issues =
     (case start of
        None \<Rightarrow> Inl AttributeError
      | Some s \<Rightarrow>
          (case end' of
             None \<Rightarrow> Inl AttributeError
           | Some e \<Rightarrow>
               Inr (filter (\<lambda>(k, v). v \<noteq> PNone)
                 [(''from_date'', PStr (isoformat w s)),
                  (''to_date'', PStr (isoformat w e)),
                  (''conditions'', PList (map encode_condition conditions)),
                  (''groupby'', PList (map PStr groupby)),
                  (''project'', PList project_ids),
                  (''aggregation'', PStr aggregation),
                  (''aggregateby'', (case model_aggregate of None \<Rightarrow> PNone | Some a \<Rightarrow> PStr a)),
                  (''granularity'', (case rollup of None \<Rightarrow> PNone | Some r \<Rightarrow> PInt r)),
                  (''issues'', issues)])))"

text \<open>
  The result is \<open>None\<close> for a model without columns (the early \<^verbatim>\<open>return None\<close>), and
  otherwise the group-by list together with the request.
\<close>

definition build_request ::
  "'dt world \<Rightarrow> TSDBModel \<Rightarrow> pyval \<Rightarrow> 'dt option \<Rightarrow> 'dt option \<Rightarrow> int option \<Rightarrow> int option
     \<Rightarrow> string \<Rightarrow> bool \<Rightarrow> bool \<Rightarrow> error + (string list \<times> (string \<times> pyval) list) option" where
  "build_request w model keys start end' rollup environment_id aggregation group_on_model group_on_time =
     (case model_columns model of
        None \<Rightarrow> Inr None
      | Some (model_group, model_aggregate) \<Rightarrow>
          (case normalize_keys keys of
             Inl e \<Rightarrow> Inl e
           | Inr (top_keys, second_keys) \<Rightarrow>
               (let keys_map = py_dict [(model_group, top_keys), (model_aggregate, second_keys)];
                    (groupby, model_aggregate') =
                       groupby_columns model_group model_aggregate aggregation
                         group_on_model group_on_time
                in case environment_condition w environment_id (key_conditions keys_map) of
                     Inl e \<Rightarrow> Inl e
                   | Inr conditions \<Rightarrow>
                       (case resolve_project_ids keys_map of
                          Inl e \<Rightarrow> Inl e
                        | Inr project_ids \<Rightarrow>
                            (let issues =
                                   (if references_issues groupby model_aggregate' conditions
                                    then PList (map encode_issue
                                                  (get_project_issues w (PList project_ids)))
                                    else PNone)
                             in case assemble_request w start end' conditions groupby project_ids
                                       aggregation model_aggregate' rollup issues of
                                  Inl e \<Rightarrow> Inl e
                                | Inr request \<Rightarrow> Inr (Some (groupby, request)))))))"

subsection \<open>Validating, scrubbing and nesting the response\<close>

text \<open>
  One turn of the loop over \<^verbatim>\<open>response['data']\<close>. \<^verbatim>\<open>parse_datetime\<close> accepts a string
  only; \<^verbatim>\<open>d['aggregate']\<close> raises KeyError on a row without that key.
\<close>

definition scrub_row :: "'dt world \<Rightarrow> row \<Rightarrow> error + row" where
  "scrub_row w d =
     (case (case map_of d ''time'' of
              None \<Rightarrow> Inr d
            | Some (PStr s) \<Rightarrow>
                (case parse_timestamp w s of
                   None \<Rightarrow> Inl ValueError
                 | Some t \<Rightarrow> Inr (AList.update ''time'' (PInt t) d))
            | Some _ \<Rightarrow> Inl TypeError) of
        Inl e \<Rightarrow> Inl e
      | Inr d1 \<Rightarrow>
          (case map_of d1 ''aggregate'' of
             None \<Rightarrow> Inl KeyError
           | Some a \<Rightarrow>
               Inr (if a = PNone then AList.update ''aggregate'' (PInt 0) d1 else d1)))"

definition scrub :: "'dt world \<Rightarrow> row list \<Rightarrow> error + row list" where
  "scrub w rows = sequence_sum (map (scrub_row w) rows)"

text \<open>Lines 117 to 126 of \<^verbatim>\<open>get_data\<close>.\<close>

definition handle_response :: "'dt world \<Rightarrow> string list \<Rightarrow> response \<Rightarrow> error + pyval" where
  "handle_response w groupby resp =
     (let expected_cols = groupby @ [''aggregate'']
      in if \<not> list_all (\<lambda>c. c \<in> set expected_cols) (meta resp) then Inl AssertionError
         else (case scrub w (data resp) of
                 Inl e \<Rightarrow> Inl e
               | Inr rows \<Rightarrow> nest_groups rows groupby))"

definition get_data ::
  "'dt world \<Rightarrow> TSDBModel \<Rightarrow> pyval \<Rightarrow> 'dt option \<Rightarrow> 'dt option \<Rightarrow> int option \<Rightarrow> int option
     \<Rightarrow> string \<Rightarrow> bool \<Rightarrow> bool \<Rightarrow> error + pyval" where
  "get_data w model keys start end' rollup environment_id aggregation group_on_model group_on_time =
     (case build_request w model keys start end' rollup environment_id aggregation
             group_on_model group_on_time of
        Inl e \<Rightarrow> Inl e
      | Inr None \<Rightarrow> Inr PNone
      | Inr (Some (groupby, request)) \<Rightarrow>
          (case snuba_post w request of
             None \<Rightarrow> Inl TransportError
           | Some resp \<Rightarrow> handle_response w groupby resp))"

subsection \<open>The public operations\<close>

text \<open>
  \<^verbatim>\<open>for k in result\<close> followed by \<^verbatim>\<open>result[k]\<close>: the entries of a dict in order.
  Iterating None raises TypeError. \<^verbatim>\<open>get_data\<close> returns None or a dict to every caller
  that iterates its result (lemma \<open>get_data_grouped_shape\<close>), so the other values are
  given the TypeError of a value that cannot be iterated.
\<close>

definition iter_result :: "pyval \<Rightarrow> error + (pyval \<times> pyval) list" where
  "iter_result result = (case result of PDict kvs \<Rightarrow> Inr kvs | _ \<Rightarrow> Inl TypeError)"

text \<open>\<^verbatim>\<open>v.items()\<close>: AttributeError on a value that is not a dict.\<close>

definition dict_items :: "pyval \<Rightarrow> error + (pyval \<times> pyval) list" where
  "dict_items v = (case v of PDict kvs \<Rightarrow> Inr kvs | _ \<Rightarrow> Inl AttributeError)"

text \<open>
  \<^verbatim>\<open>sorted\<close> on a list of pairs whose first components are distinct orders by the first
  component. Here they are the timestamps that scrubbing made integers; keys of another
  type are not compared by the model (TypeError).
\<close>

fun is_int :: "pyval \<Rightarrow> bool" where
  "is_int (PInt _) = True"
| "is_int _ = False"

fun int_of :: "pyval \<Rightarrow> int" where
  "int_of (PInt i) = i"
| "int_of _ = 0"

definition py_sorted :: "(pyval \<times> 'a) list \<Rightarrow> error + (pyval \<times> 'a) list" where
  "py_sorted kvs =
     (if list_all (\<lambda>kv. is_int (fst kv)) kvs then Inr (sort_key (\<lambda>kv. int_of (fst kv)) kvs)
      else Inl TypeError)"

definition sorted_items :: "pyval \<Rightarrow> error + (pyval \<times> pyval) list" where
  "sorted_items v = (case dict_items v of Inl e \<Rightarrow> Inl e | Inr kvs \<Rightarrow> py_sorted kvs)"

text \<open>Applying a step to the value of every entry, in order; the first exception wins.\<close>

definition map_values :: "('v \<Rightarrow> error + 'u) \<Rightarrow> ('k \<times> 'v) list \<Rightarrow> error + ('k \<times> 'u) list" where
  "map_values f kvs =
     sequence_sum (map (\<lambda>(k, v). case f v of Inl e \<Rightarrow> Inl e | Inr u \<Rightarrow> Inr (k, u)) kvs)"

text \<open>\<^verbatim>\<open>'{}'.format(limit)\<close> for an integer: its decimal digits, after a minus sign if negative.\<close>

function string_of_nat :: "nat \<Rightarrow> string" where
  "string_of_nat n =
     (if n < 10 then [char_of (48 + n)]
      else string_of_nat (n div 10) @ [char_of (48 + n mod 10)])"
  by pat_completeness auto
termination
  by (relation "measure (\<lambda>n. n)") auto

definition string_of_int :: "int \<Rightarrow> string" where
  "string_of_int i = (if i < 0 then ''-'' @ string_of_nat (nat (- i)) else string_of_nat (nat i))"

definition topK :: "int \<Rightarrow> string" where
  "topK limit = ''topK('' @ string_of_int limit @ '')''"

text \<open>\<^verbatim>\<open>reversed(x)\<close> needs a sequence: a list, a tuple or a string.\<close>

definition py_reversed :: "pyval \<Rightarrow> error + pyval list" where
  "py_reversed x =
     (case x of
        PList xs \<Rightarrow> Inr (rev xs)
      | PTuple xs \<Rightarrow> Inr (rev xs)
      | PStr s \<Rightarrow> Inr (map (\<lambda>c. PStr [c]) (rev s))
      | _ \<Rightarrow> Inl TypeError)"

text \<open>The body of the loop of \<^verbatim>\<open>get_most_frequent\<close> (lines 185 and 186).\<close>

definition item_scores :: "pyval \<Rightarrow> error + (pyval \<times> real) list" where
  "item_scores v =
     (case py_reversed v of
        Inl e \<Rightarrow> Inl e
      | Inr r \<Rightarrow> Inr (rev (map (\<lambda>(i, x). (x, real (i + 1))) (enumerate 0 r))))"

text \<open>The dict comprehension of \<^verbatim>\<open>get_most_frequent_series\<close> (line 202).\<close>

definition score_dict :: "pyval \<Rightarrow> error + (pyval \<times> real) list" where
  "score_dict topk =
     (case py_reversed topk of
        Inl e \<Rightarrow> Inl e
      | Inr r \<Rightarrow>
          if list_all hashable r then Inr (py_dict (map (\<lambda>(i, x). (x, real (i + 1))) (enumerate 0 r)))
          else Inl TypeError)"

definition get_range ::
  "'dt world \<Rightarrow> TSDBModel \<Rightarrow> pyval \<Rightarrow> 'dt option \<Rightarrow> 'dt option \<Rightarrow> int option \<Rightarrow> int option
     \<Rightarrow> error + (pyval \<times> (pyval \<times> pyval) list) list" where
  "get_range w model keys start end' rollup environment_id =
     (case get_data w model keys start end' rollup environment_id ''count'' True True of
        Inl e \<Rightarrow> Inl e
      | Inr result \<Rightarrow>
          (case iter_result result of
             Inl e \<Rightarrow> Inl e
           | Inr kvs \<Rightarrow> map_values sorted_items kvs))"

definition get_distinct_counts_series ::
  "'dt world \<Rightarrow> TSDBModel \<Rightarrow> pyval \<Rightarrow> 'dt option \<Rightarrow> 'dt option \<Rightarrow> int option \<Rightarrow> int option
     \<Rightarrow> error + (pyval \<times> (pyval \<times> pyval) list) list" where
  "get_distinct_counts_series w model keys start end' rollup environment_id =
     (case get_data w model keys start end' rollup environment_id ''uniq'' True True of
        Inl e \<Rightarrow> Inl e
      | Inr result \<Rightarrow>
          (case iter_result result of
             Inl e \<Rightarrow> Inl e
           | Inr kvs \<Rightarrow> map_values sorted_items kvs))"

definition get_distinct_counts_totals ::
  "'dt world \<Rightarrow> TSDBModel \<Rightarrow> pyval \<Rightarrow> 'dt option \<Rightarrow> 'dt option \<Rightarrow> int option \<Rightarrow> int option
     \<Rightarrow> error + pyval" where
  "get_distinct_counts_totals w model keys start end' rollup environment_id =
     get_data w model keys start end' rollup environment_id ''uniq'' True False"

definition get_distinct_counts_union ::
  "'dt world \<Rightarrow> TSDBModel \<Rightarrow> pyval \<Rightarrow> 'dt option \<Rightarrow> 'dt option \<Rightarrow> int option \<Rightarrow> int option
     \<Rightarrow> error + pyval" where
  "get_distinct_counts_union w model keys start end' rollup environment_id =
     get_data w model keys start end' rollup environment_id ''uniq'' False False"

definition get_most_frequent ::
  "'dt world \<Rightarrow> TSDBModel \<Rightarrow> pyval \<Rightarrow> 'dt option \<Rightarrow> 'dt option \<Rightarrow> int option \<Rightarrow> int \<Rightarrow> int option
     \<Rightarrow> error + (pyval \<times> (pyval \<times> real) list) list" where
  "get_most_frequent w model keys start end' rollup limit environment_id =
     (case get_data w model keys start end' rollup environment_id (topK limit) True False of
        Inl e \<Rightarrow> Inl e
      | Inr result \<Rightarrow>
          (case iter_result result of
             Inl e \<Rightarrow> Inl e
           | Inr kvs \<Rightarrow> map_values item_scores kvs))"

definition series_scores :: "pyval \<Rightarrow> error + (pyval \<times> (pyval \<times> real) list) list" where
  "series_scores v =
     (case dict_items v of
        Inl e \<Rightarrow> Inl e
      | Inr kvs \<Rightarrow>
          (case map_values score_dict kvs of
             Inl e \<Rightarrow> Inl e
           | Inr scored \<Rightarrow> py_sorted scored))"

definition get_most_frequent_series ::
  "'dt world \<Rightarrow> TSDBModel \<Rightarrow> pyval \<Rightarrow> 'dt option \<Rightarrow> 'dt option \<Rightarrow> int option \<Rightarrow> int \<Rightarrow> int option
     \<Rightarrow> error + (pyval \<times> (pyval \<times> (pyval \<times> real) list) list) list" where
  "get_most_frequent_series w model keys start end' rollup limit environment_id =
     (case get_data w model keys start end' rollup environment_id (topK limit) True True of
        Inl e \<Rightarrow> Inl e
      | Inr result \<Rightarrow>
          (case iter_result result of
             Inl e \<Rightarrow> Inl e
           | Inr kvs \<Rightarrow> map_values series_scores kvs))"

definition get_frequency_series ::
  "'dt world \<Rightarrow> TSDBModel \<Rightarrow> pyval \<Rightarrow> 'dt option \<Rightarrow> 'dt option \<Rightarrow> int option \<Rightarrow> int option
     \<Rightarrow> error + (pyval \<times> (pyval \<times> pyval) list) list" where
  "get_frequency_series w model items start end' rollup environment_id =
     (case get_data w model items start end' rollup environment_id ''count'' True True of
        Inl e \<Rightarrow> Inl e
      | Inr result \<Rightarrow>
          (case iter_result result of
             Inl e \<Rightarrow> Inl e
           | Inr kvs \<Rightarrow> map_values dict_items kvs))"

definition get_frequency_totals ::
  "'dt world \<Rightarrow> TSDBModel \<Rightarrow> pyval \<Rightarrow> 'dt option \<Rightarrow> 'dt option \<Rightarrow> int option \<Rightarrow> int option
     \<Rightarrow> error + pyval" where
  "get_frequency_totals w model items start end' rollup environment_id =
     get_data w model items start end' rollup environment_id ''count'' True False"

subsection \<open>Concrete collaborators for the examples\<close>

text \<open>
  A world whose datetimes are their own ISO strings, whose only environment is number 7,
  ``production'', with no group hashes, and whose backend answers every request with the
  given response.
\<close>

definition example_world :: "response \<Rightarrow> string world" where
  "example_world resp =
     \<lparr> isoformat = (\<lambda>s. s),
       environment_names = (\<lambda>i. if i = 7 then Some ''production'' else None),
       group_hashes = (\<lambda>ids. []),
       snuba_post = (\<lambda>request. Some resp),
       parse_timestamp = (\<lambda>s. if s = ''2024-01-01T00:00:00Z'' then Some 1704067200 else None) \<rparr>"

definition empty_response :: response where
  "empty_response = \<lparr> meta = [], data = [] \<rparr>"

definition topk_response :: response where
  "topk_response =
     \<lparr> meta = [''project_id'', ''aggregate''],
       data = [[(''project_id'', PInt 1), (''aggregate'', PList [PStr ''b'', PStr ''a''])]] \<rparr>"

text \<open>A response that names a column nobody asked for.\<close>

definition unexpected_response :: response where
  "unexpected_response = \<lparr> meta = [''project_id'', ''bogus''], data = [] \<rparr>"

section \<open>Properties\<close>

subsection \<open>Sequencing\<close>

lemma sequence_sum_Inr: "sequence_sum xs = Inr ys \<Longrightarrow> xs = map Inr ys"
proof (induction xs arbitrary: ys)
  case Nil
  then show ?case by simp
next
  case (Cons x xs)
  then show ?case
    by (cases x) (auto split: sum.splits)
qed

lemma sequence_sum_Inl: "sequence_sum xs = Inl e \<Longrightarrow> Inl e \<in> set xs"
proof (induction xs)
  case Nil
  then show ?case by simp
next
  case (Cons x xs)
  then show ?case
    by (cases x) (auto split: sum.splits)
qed

lemma map_values_lookup:
  "map_values f kvs = Inr res \<Longrightarrow> map_of kvs g = Some v \<Longrightarrow> \<exists>u. f v = Inr u \<and> map_of res g = Some u"
proof (induction kvs arbitrary: res)
  case Nil
  then show ?case by simp
next
  case (Cons kv kvs)
  obtain k x where kv: "kv = (k, x)" by (cases kv)
  from Cons.prems(1) kv obtain u rest where fx: "f x = Inr u"
    and rest: "map_values f kvs = Inr rest" and res: "res = (k, u) # rest"
    by (auto simp: map_values_def split: sum.splits)
  show ?case
  proof (cases "k = g")
    case True
    with Cons.prems(2) kv fx res show ?thesis by simp
  next
    case False
    with Cons.prems(2) kv have "map_of kvs g = Some v" by simp
    from Cons.IH [OF rest this] False res show ?thesis by simp
  qed
qed

lemma map_values_Inl:
  assumes "map_values f kvs = Inl e"
  shows "\<exists>v \<in> snd ` set kvs. f v = Inl e"
proof -
  from assms have "Inl e \<in> set (map (\<lambda>(k, v). case f v of Inl e \<Rightarrow> Inl e | Inr u \<Rightarrow> Inr (k, u)) kvs)"
    unfolding map_values_def by (rule sequence_sum_Inl)
  then show ?thesis by (force split: sum.splits)
qed

subsection \<open>Unsupported models\<close>

text \<open>
  Claim C1. For a model that \<open>model_columns\<close> does not know, \<^verbatim>\<open>get_data\<close> returns None.
  The three operations that hand this result on return None; the five that iterate over
  it (\<^verbatim>\<open>get_range\<close>, \<^verbatim>\<open>get_distinct_counts_series\<close>, \<^verbatim>\<open>get_most_frequent\<close>,
  \<^verbatim>\<open>get_most_frequent_series\<close>, \<^verbatim>\<open>get_frequency_series\<close>) raise TypeError instead of
  returning an empty result.
\<close>

theorem unsupported_model_operations:
  "get_range w (TSDBModel_unlisted n) keys start end' rollup environment_id = Inl TypeError
   \<and> get_distinct_counts_series w (TSDBModel_unlisted n) keys start end' rollup environment_id = Inl TypeError
   \<and> get_most_frequent w (TSDBModel_unlisted n) keys start end' rollup limit environment_id = Inl TypeError
   \<and> get_most_frequent_series w (TSDBModel_unlisted n) keys start end' rollup limit environment_id = Inl TypeError
   \<and> get_frequency_series w (TSDBModel_unlisted n) keys start end' rollup environment_id = Inl TypeError
   \<and> get_distinct_counts_totals w (TSDBModel_unlisted n) keys start end' rollup environment_id = Inr PNone
   \<and> get_distinct_counts_union w (TSDBModel_unlisted n) keys start end' rollup environment_id = Inr PNone
   \<and> get_frequency_totals w (TSDBModel_unlisted n) keys start end' rollup environment_id = Inr PNone"
  by (simp add: get_range_def get_distinct_counts_series_def get_most_frequent_def
      get_most_frequent_series_def get_frequency_series_def get_distinct_counts_totals_def
      get_distinct_counts_union_def get_frequency_totals_def get_data_def build_request_def
      iter_result_def)

subsection \<open>Key normalisation\<close>

lemma py_set_distinct: "py_set v = Inr s \<Longrightarrow> distinct s"
  by (cases v) (auto split: if_splits)

text \<open>
  On a dict that \<^verbatim>\<open>normalize_keys\<close> accepts, the top keys are the keys of the dict and
  the second keys are the union of the value sets, without duplicates. Such a dict has at
  least one entry.
\<close>

lemma normalize_keys_dict:
  assumes "normalize_keys (PDict kvs) = Inr (top_keys, second_keys)"
  shows "kvs \<noteq> [] \<and> top_keys = PList (map fst kvs)
         \<and> (\<exists>sets u. map (\<lambda>(k, v). py_set v) kvs = map Inr sets \<and> second_keys = PList u
               \<and> distinct u \<and> set u = \<Union> (set ` set sets))"
proof -
  from assms obtain sets u where seq: "sequence_sum (map (\<lambda>(k, v). py_set v) kvs) = Inr sets"
    and un: "set_union sets = Inr u" and res: "top_keys = PList (map fst kvs)" "second_keys = PList u"
    by (auto simp: normalize_keys_def split: sum.splits)
  from seq have m: "map (\<lambda>(k, v). py_set v) kvs = map Inr sets" by (rule sequence_sum_Inr)
  from un have ne: "sets \<noteq> []" and u: "u = remdups (concat sets)"
    by (cases sets; simp)+
  from m ne have "kvs \<noteq> []" by auto
  moreover from u have "distinct u" "set u = \<Union> (set ` set sets)" by auto
  ultimately show ?thesis using res m by blast
qed

text \<open>
  Claim C4. On the dict with no entries, \<^verbatim>\<open>set.union\<close> is called without an argument:
  \<^verbatim>\<open>normalize_keys\<close> raises TypeError where the claim asks for the empty set.
\<close>

theorem normalize_keys_empty_dict: "normalize_keys (PDict []) = Inl TypeError"
  by (simp add: normalize_keys_def)

subsection \<open>Project ids\<close>

lemma set_intersection_Inr:
  "set_intersection sets = Inr ps \<Longrightarrow> sets \<noteq> [] \<and> set ps = \<Inter> (set ` set sets)"
  by (cases sets) (auto simp: list_all_iff)

text \<open>
  When the project ids are resolved, at least one column of the key map gave a non-empty
  list, and the result is the intersection of the sets of those lists.
\<close>

lemma resolve_project_ids_Inr:
  assumes "resolve_project_ids keys_map = Inr project_ids"
  shows "\<exists>sets. map py_set (filter truthy (map (\<lambda>(k, ids). get_project_ids k ids) keys_map))
                  = map Inr sets
               \<and> sets \<noteq> [] \<and> set project_ids = \<Inter> (set ` set sets)"
proof -
  from assms obtain sets
    where seq: "sequence_sum (map py_set (filter truthy
                  (map (\<lambda>(k, ids). get_project_ids k ids) keys_map))) = Inr sets"
      and int: "set_intersection sets = Inr project_ids"
    by (auto simp: resolve_project_ids_def Let_def split: sum.splits)
  from sequence_sum_Inr [OF seq] set_intersection_Inr [OF int] show ?thesis by blast
qed

text \<open>
  Claim C3. With keys that are issue ids, no column of the key map gives a non-empty list of
  project ids, \<^verbatim>\<open>set.intersection\<close> is called without an argument, and building the request
  raises TypeError where the claim asks for an empty scope and a request that goes out.
\<close>

theorem build_request_issue_keys:
  "build_request w TSDBModel_group (PList [PInt 101, PInt 102]) start end' rollup None
     aggregation group_on_model group_on_time = Inl TypeError
   \<and> get_data w TSDBModel_group (PList [PInt 101, PInt 102]) start end' rollup None
     aggregation group_on_model group_on_time = Inl TypeError
   \<and> get_range w TSDBModel_group (PList [PInt 101, PInt 102]) start end' rollup None = Inl TypeError"
  by (simp add: get_range_def get_data_def build_request_def normalize_keys_def py_dict_def
      groupby_columns_def environment_condition_def resolve_project_ids_def get_project_ids_def
      split: prod.splits)

subsection \<open>Nesting\<close>

text \<open>
  Claim C6. Nesting no rows under at least one group column gives the empty dict. With no
  group column left, nesting no rows gives None, and nesting a non-empty list of rows gives
  the value that the first row has under \<^verbatim>\<open>aggregate\<close>.
\<close>

theorem nest_groups_boundary:
  "nest_groups [] (g # gs) = Inr (PDict [])
   \<and> nest_groups [] [] = Inr PNone
   \<and> (map_of d ''aggregate'' = Some a \<longrightarrow> nest_groups (d # ds) [] = Inr a)"
  by (simp add: getitem_def)

text \<open>
  Two rows with the aggregates 5 and 7 and no group column: the result is 5, the aggregate
  of the first row.
\<close>

theorem nest_groups_boundary_witness:
  "nest_groups [] [''issue'', ''time''] = Inr (PDict [])
   \<and> nest_groups [] [] = Inr PNone
   \<and> map_of [(''issue'', PInt 101), (''aggregate'', PInt 5)] ''aggregate'' = Some (PInt 5)
   \<and> nest_groups [[(''issue'', PInt 101), (''aggregate'', PInt 5)],
                    [(''issue'', PInt 102), (''aggregate'', PInt 7)]] [] = Inr (PInt 5)"
proof -
  have a: "map_of [(''issue'', PInt 101), (''aggregate'', PInt 5)] ''aggregate'' = Some (PInt 5)"
    by simp
  from nest_groups_boundary [of "''issue''" "[''time'']" "[(''issue'', PInt 101), (''aggregate'', PInt 5)]"
      "PInt 5" "[[(''issue'', PInt 102), (''aggregate'', PInt 7)]]"] a
  show ?thesis by blast
qed

subsection \<open>Exceptions and stages of request building\<close>

lemma py_set_error: "py_set v = Inl e \<Longrightarrow> e = TypeError"
  by (cases v) (auto split: if_splits)

lemma set_union_error: "set_union ss = Inl e \<Longrightarrow> e = TypeError"
  by (cases ss) auto

lemma set_intersection_error: "set_intersection ss = Inl e \<Longrightarrow> e = TypeError"
  by (cases ss) auto

lemma normalize_keys_error:
  assumes "normalize_keys keys = Inl e"
  shows "e = TypeError"
proof (cases keys)
  case (PDict kvs)
  show ?thesis
  proof (cases "sequence_sum (map (\<lambda>(k, v). py_set v) kvs)")
    case (Inl e')
    with assms PDict have "e' = e" by (simp add: normalize_keys_def)
    with Inl have "sequence_sum (map (\<lambda>(k, v). py_set v) kvs) = Inl e" by simp
    then have "Inl e \<in> set (map (\<lambda>(k, v). py_set v) kvs)" by (rule sequence_sum_Inl)
    then show ?thesis by (auto dest: py_set_error [OF sym])
  next
    case (Inr sets)
    with assms PDict have "set_union sets = Inl e"
      by (simp add: normalize_keys_def split: sum.splits)
    then show ?thesis by (rule set_union_error)
  qed
qed (use assms in \<open>simp_all add: normalize_keys_def\<close>)

lemma resolve_project_ids_error:
  assumes "resolve_project_ids keys_map = Inl e"
  shows "e = TypeError"
proof -
  let ?sets = "sequence_sum (map py_set (filter truthy (map (\<lambda>(k, ids). get_project_ids k ids) keys_map)))"
  show ?thesis
  proof (cases ?sets)
    case (Inl e')
    with assms have "e' = e" by (simp add: resolve_project_ids_def)
    with Inl have "?sets = Inl e" by simp
    then have "Inl e \<in> set (map py_set (filter truthy (map (\<lambda>(k, ids). get_project_ids k ids) keys_map)))"
      by (rule sequence_sum_Inl)
    then show ?thesis by (auto dest: py_set_error [OF sym])
  next
    case (Inr sets)
    with assms have "set_intersection sets = Inl e" by (simp add: resolve_project_ids_def)
    then show ?thesis by (rule set_intersection_error)
  qed
qed

lemma environment_condition_error:
  "environment_condition w environment_id conditions = Inl e \<Longrightarrow> e = DoesNotExist"
  by (auto simp: environment_condition_def get_environment_name_def split: option.splits)

lemma environment_condition_Some:
  "environment_condition w (Some eid) conditions = Inr cs \<Longrightarrow>
     \<exists>name. environment_names w eid = Some name \<and> cs = conditions @ [(''environment'', ''='', PStr name)]"
  by (auto simp: environment_condition_def get_environment_name_def split: option.splits)

lemma assemble_request_error:
  "assemble_request w start end' conditions groupby project_ids aggregation model_aggregate rollup issues = Inl e
     \<Longrightarrow> e = AttributeError"
  by (auto simp: assemble_request_def split: option.splits)

lemma assemble_request_end_absent:
  "assemble_request w start None conditions groupby project_ids aggregation model_aggregate rollup issues
     = Inl AttributeError"
  by (simp add: assemble_request_def split: option.splits)

lemma assemble_request_fields:
  assumes "assemble_request w start end' conditions groupby project_ids aggregation model_aggregate rollup issues
             = Inr request"
  shows "map_of request ''conditions'' = Some (PList (map encode_condition conditions))"
    and "map_of request ''groupby'' = Some (PList (map PStr groupby))"
    and "map_of request ''project'' = Some (PList project_ids)"
    and "map_of request ''aggregateby'' = map_option PStr model_aggregate"
  using assms by (auto simp: assemble_request_def split: option.splits)

text \<open>What a request that was built went through.\<close>

lemma build_request_Some:
  assumes "build_request w model keys start end' rollup environment_id aggregation group_on_model group_on_time
             = Inr (Some (groupby, request))"
  obtains model_group model_aggregate top_keys second_keys model_aggregate' conditions project_ids issues
  where "model_columns model = Some (model_group, model_aggregate)"
    and "normalize_keys keys = Inr (top_keys, second_keys)"
    and "groupby_columns model_group model_aggregate aggregation group_on_model group_on_time
           = (groupby, model_aggregate')"
    and "environment_condition w environment_id
           (key_conditions (py_dict [(model_group, top_keys), (model_aggregate, second_keys)]))
           = Inr conditions"
    and "resolve_project_ids (py_dict [(model_group, top_keys), (model_aggregate, second_keys)])
           = Inr project_ids"
    and "assemble_request w start end' conditions groupby project_ids aggregation model_aggregate'
           rollup issues = Inr request"
  using assms
  by (auto simp: build_request_def Let_def split: option.splits sum.splits prod.splits)

lemma build_request_error:
  assumes "build_request w model keys start end' rollup environment_id aggregation group_on_model group_on_time
             = Inl e"
  shows "e = TypeError \<or> e = DoesNotExist \<or> e = AttributeError"
  using assms
  by (auto simp: build_request_def Let_def split: option.splits sum.splits prod.splits
      dest: normalize_keys_error environment_condition_error resolve_project_ids_error
        assemble_request_error)

lemma build_request_end_absent:
  assumes "model_columns model \<noteq> None"
  shows "isl (build_request w model keys start None rollup environment_id aggregation group_on_model group_on_time)"
  using assms
  by (auto simp: build_request_def Let_def assemble_request_end_absent
      split: option.splits sum.splits prod.splits)

subsection \<open>Validating the response\<close>

lemma scrub_row_error: "scrub_row w d = Inl e \<Longrightarrow> e = ValueError \<or> e = TypeError \<or> e = KeyError"
  by (auto simp: scrub_row_def split: option.splits pyval.splits sum.splits)

lemma scrub_error:
  assumes "scrub w rows = Inl e"
  shows "e = ValueError \<or> e = TypeError \<or> e = KeyError"
proof -
  from assms have "Inl e \<in> set (map (scrub_row w) rows)"
    unfolding scrub_def by (rule sequence_sum_Inl)
  then show ?thesis by (auto dest: scrub_row_error [OF sym])
qed

lemma group_rows_error: "group_rows g rows intr = Inl e \<Longrightarrow> e = KeyError \<or> e = TypeError"
  by (induction g rows intr rule: group_rows.induct) (auto split: option.splits if_splits)

lemma getitem_error: "getitem d k = Inl e \<Longrightarrow> e = KeyError"
  by (auto simp: getitem_def split: option.splits)

lemma nest_groups_error: "nest_groups rows groups = Inl e \<Longrightarrow> e = KeyError \<or> e = TypeError"
proof (induction groups arbitrary: rows)
  case Nil
  then show ?case by (auto split: list.splits dest: getitem_error)
next
  case (Cons g rest)
  show ?case
  proof (cases "group_rows g rows []")
    case (Inl e')
    with Cons.prems show ?thesis by (auto dest: group_rows_error)
  next
    case (Inr intr)
    let ?steps = "map (\<lambda>(k, v). case nest_groups v rest of Inl e \<Rightarrow> Inl e | Inr r \<Rightarrow> Inr (k, r)) intr"
    from Cons.prems Inr have "sequence_sum ?steps = Inl e"
      by (auto split: sum.splits)
    then have "Inl e \<in> set ?steps" by (rule sequence_sum_Inl)
    then obtain k v where "nest_groups v rest = Inl e"
      by (auto split: sum.splits)
    then show ?thesis by (rule Cons.IH)
  qed
qed

lemma nest_groups_dict:
  "nest_groups rows (g # rest) = Inr r \<Longrightarrow> \<exists>kvs. r = PDict kvs"
  by (auto split: sum.splits)

lemma handle_response_assertion:
  "handle_response w groupby resp = Inl AssertionError
     \<longleftrightarrow> (\<exists>c \<in> set (meta resp). c \<notin> set groupby \<union> {''aggregate''})"
proof (cases "list_all (\<lambda>c. c \<in> set (groupby @ [''aggregate''])) (meta resp)")
  case True
  then have ok: "\<not> (\<exists>c \<in> set (meta resp). c \<notin> set groupby \<union> {''aggregate''})"
    by (auto simp: list_all_iff)
  have "handle_response w groupby resp \<noteq> Inl AssertionError"
  proof
    assume a: "handle_response w groupby resp = Inl AssertionError"
    show False
    proof (cases "scrub w (data resp)")
      case (Inl e)
      with a True have "e = AssertionError" by (simp add: handle_response_def)
      with Inl scrub_error [of w "data resp" e] show False by simp
    next
      case (Inr rows)
      with a True have "nest_groups rows groupby = Inl AssertionError"
        by (simp add: handle_response_def)
      from nest_groups_error [OF this] show False by simp
    qed
  qed
  with ok show ?thesis by simp
next
  case False
  then have "\<exists>c \<in> set (meta resp). c \<notin> set groupby \<union> {''aggregate''}"
    by (auto simp: list_all_iff)
  moreover from False have "handle_response w groupby resp = Inl AssertionError"
    by (simp add: handle_response_def)
  ultimately show ?thesis by simp
qed

text \<open>
  Claim C8. \<^verbatim>\<open>get_data\<close> raises AssertionError exactly when a request was built, the
  backend answered, and the answer names a column that is neither a group-by column of the
  request nor \<^verbatim>\<open>aggregate\<close>. An operation that raises returns no result: \<open>Inl\<close> is
  not \<open>Inr\<close>. No other step of \<^verbatim>\<open>get_data\<close> raises this exception.
\<close>

theorem get_data_assertion:
  "get_data w model keys start end' rollup environment_id aggregation group_on_model group_on_time
     = Inl AssertionError
   \<longleftrightarrow> (\<exists>groupby request resp.
          build_request w model keys start end' rollup environment_id aggregation
            group_on_model group_on_time = Inr (Some (groupby, request))
          \<and> snuba_post w request = Some resp
          \<and> (\<exists>c \<in> set (meta resp). c \<notin> set groupby \<union> {''aggregate''}))"
proof (cases "build_request w model keys start end' rollup environment_id aggregation
                group_on_model group_on_time")
  case (Inl e)
  with build_request_error [OF Inl] show ?thesis by (auto simp: get_data_def)
next
  case (Inr built)
  show ?thesis
  proof (cases built)
    case None
    with Inr show ?thesis by (simp add: get_data_def)
  next
    case (Some gr)
    obtain groupby request where gr: "gr = (groupby, request)" by (cases gr)
    show ?thesis
    proof (cases "snuba_post w request")
      case None
      with Inr Some gr show ?thesis by (simp add: get_data_def)
    next
      case (Some resp)
      with Inr \<open>built = Some gr\<close> gr show ?thesis
        by (simp add: get_data_def handle_response_assertion)
    qed
  qed
qed

text \<open>
  Grouping on the model always gives a group-by list with at least one column, since every
  model of the registry has a group column; the nested result is then a dict.
\<close>

lemma get_data_grouped_shape:
  assumes "get_data w model keys start end' rollup environment_id aggregation True group_on_time = Inr r"
  shows "r = PNone \<or> (\<exists>kvs. r = PDict kvs)"
proof (cases "build_request w model keys start end' rollup environment_id aggregation True group_on_time")
  case (Inl e)
  with assms show ?thesis by (simp add: get_data_def)
next
  case (Inr built)
  show ?thesis
  proof (cases built)
    case None
    with Inr assms show ?thesis by (simp add: get_data_def)
  next
    case (Some gr)
    obtain groupby request where gr: "gr = (groupby, request)" by (cases gr)
    from Inr Some gr have b: "build_request w model keys start end' rollup environment_id aggregation
        True group_on_time = Inr (Some (groupby, request))" by simp
    have "groupby \<noteq> []"
    proof -
      from b obtain model_group model_aggregate model_aggregate'
        where mc: "model_columns model = Some (model_group, model_aggregate)"
          and gc: "groupby_columns model_group model_aggregate aggregation True group_on_time
                     = (groupby, model_aggregate')"
        by (rule build_request_Some)
      from mc have "model_group \<noteq> None" by (cases model) auto
      with gc show ?thesis
        by (auto simp: groupby_columns_def Let_def split: option.splits if_splits)
    qed
    then obtain g rest where gs: "groupby = g # rest" by (cases groupby) auto
    from assms b obtain resp where "handle_response w groupby resp = Inr r"
      by (auto simp: get_data_def split: option.splits)
    then obtain rows where "nest_groups rows groupby = Inr r"
      by (auto simp: handle_response_def Let_def split: if_splits sum.splits)
    with gs show ?thesis using nest_groups_dict by blast
  qed
qed

subsection \<open>A request that is built\<close>

lemmas example_defs =
  get_data_def build_request_def normalize_keys_def py_dict_def groupby_columns_def
  environment_condition_def get_environment_name_def key_conditions_def resolve_project_ids_def
  get_project_ids_def references_issues_def get_project_issues_def assemble_request_def
  encode_condition_def encode_issue_def example_world_def handle_response_def scrub_def
  scrub_row_def getitem_def

lemma example_build:
  "build_request (example_world resp) TSDBModel_users_affected_by_project (PList [PInt 1])
     (Some ''2024-01-01T00:00:00'') (Some ''2024-01-02T00:00:00'') None (Some 7) ''count'' True True
   = Inr (Some ([''project_id'', ''time'', ''user_id''],
        [(''from_date'', PStr ''2024-01-01T00:00:00''), (''to_date'', PStr ''2024-01-02T00:00:00''),
         (''conditions'', PList [PTuple [PStr ''project_id'', PStr ''IN'', PList [PInt 1]],
                                PTuple [PStr ''environment'', PStr ''='', PStr ''production'']]),
         (''groupby'', PList [PStr ''project_id'', PStr ''time'', PStr ''user_id'']),
         (''project'', PList [PInt 1]),
         (''aggregation'', PStr ''count'')]))"
  by (simp add: example_defs)

text \<open>
  The models grouped by \<^verbatim>\<open>project_id\<close> are the ones for which a request is built: with a
  non-empty list of hashable project keys, both ends of the range and an environment that
  resolves (or none), \<^verbatim>\<open>get_data\<close> reaches the backend call.
\<close>

lemma project_model_aggregate:
  "model_columns model = Some (Some ''project_id'', model_aggregate)
     \<Longrightarrow> model_aggregate \<noteq> Some ''project_id''"
  by (cases model) auto

lemma resolve_project_ids_project_keys:
  assumes "model_aggregate \<noteq> Some ''project_id''" and "ids \<noteq> []" and "list_all hashable ids"
  shows "resolve_project_ids (py_dict [(Some ''project_id'', PList ids), (model_aggregate, second_keys)])
           = Inr (remdups ids)"
  using assms
  by (simp add: resolve_project_ids_def py_dict_def get_project_ids_def)

lemma build_request_project_keys:
  assumes mc: "model_columns model = Some (Some ''project_id'', model_aggregate)"
    and ids: "ids \<noteq> []" "list_all hashable ids"
    and env: "environment_condition w environment_id
                (key_conditions (py_dict [(Some ''project_id'', PList ids), (model_aggregate, PNone)]))
              = Inr conditions"
  shows "\<exists>groupby request.
           build_request w model (PList ids) (Some s) (Some e) rollup environment_id aggregation
             group_on_model group_on_time = Inr (Some (groupby, request))"
proof -
  note ma = project_model_aggregate [OF mc]
  have nk: "normalize_keys (PList ids) = Inr (PList ids, PNone)"
    by (simp add: normalize_keys_def)
  note rp = resolve_project_ids_project_keys [OF ma ids, of PNone]
  obtain groupby model_aggregate'
    where gc: "groupby_columns (Some ''project_id'') model_aggregate aggregation
                 group_on_model group_on_time = (groupby, model_aggregate')"
    by (cases "groupby_columns (Some ''project_id'') model_aggregate aggregation
                 group_on_model group_on_time")
  show ?thesis
    by (simp add: build_request_def mc nk rp gc env Let_def assemble_request_def)
qed

text \<open>
  The response \<open>unexpected_response\<close> names the column \<^verbatim>\<open>bogus\<close>, which the request
  did not group by: the operation raises AssertionError.
\<close>

theorem get_data_assertion_witness:
  "get_data (example_world unexpected_response) TSDBModel_users_affected_by_project (PList [PInt 1])
     (Some ''2024-01-01T00:00:00'') (Some ''2024-01-02T00:00:00'') None (Some 7) ''count'' True True
   = Inl AssertionError"
  using get_data_assertion [of "example_world unexpected_response" TSDBModel_users_affected_by_project
      "PList [PInt 1]" "Some ''2024-01-01T00:00:00''" "Some ''2024-01-02T00:00:00''" None "Some 7"
      "''count''" True True]
  by (simp add: example_build) (simp add: example_world_def unexpected_response_def)

subsection \<open>The count rewrite\<close>

text \<open>
  For a model with an aggregate column and the aggregation \<^verbatim>\<open>count\<close>, a request that is
  built lists the aggregate column in its group-by list and has no \<^verbatim>\<open>aggregateby\<close>
  entry: the key is left out of the dict, not set to None.
\<close>

lemma count_rewrite_built:
  assumes "model_columns model = Some (model_group, Some a)"
    and "build_request w model keys start end' rollup environment_id ''count''
           group_on_model group_on_time = Inr (Some (groupby, request))"
  shows "a \<in> set groupby
         \<and> map_of request ''groupby'' = Some (PList (map PStr groupby))
         \<and> map_of request ''aggregateby'' = None"
proof -
  from assms(2) obtain model_group' model_aggregate model_aggregate' conditions project_ids issues
    where mc: "model_columns model = Some (model_group', model_aggregate)"
      and gc: "groupby_columns model_group' model_aggregate ''count'' group_on_model group_on_time
                 = (groupby, model_aggregate')"
      and ar: "assemble_request w start end' conditions groupby project_ids ''count'' model_aggregate'
                 rollup issues = Inr request"
    by (rule build_request_Some)
  from mc assms(1) have "model_group' = model_group" "model_aggregate = Some a" by simp_all
  with gc have "a \<in> set groupby" "model_aggregate' = None"
    by (auto simp: groupby_columns_def Let_def)
  with assemble_request_fields(2,4) [OF ar] show ?thesis by simp
qed

text \<open>
  For the two such models that are grouped by \<^verbatim>\<open>project_id\<close> the request is built, with
  the rewrite applied.
\<close>

lemma count_rewrite_project_models:
  assumes mc: "model_columns model = Some (Some ''project_id'', Some a)"
    and ids: "ids \<noteq> []" "list_all hashable ids"
    and env: "environment_condition w environment_id
                (key_conditions (py_dict [(Some ''project_id'', PList ids), (Some a, PNone)]))
              = Inr conditions"
  shows "\<exists>groupby request.
           build_request w model (PList ids) (Some s) (Some e) rollup environment_id ''count''
             group_on_model group_on_time = Inr (Some (groupby, request))
           \<and> a \<in> set groupby
           \<and> map_of request ''groupby'' = Some (PList (map PStr groupby))
           \<and> map_of request ''aggregateby'' = None"
proof -
  from build_request_project_keys [OF mc ids env] obtain groupby request
    where b: "build_request w model (PList ids) (Some s) (Some e) rollup environment_id ''count''
                group_on_model group_on_time = Inr (Some (groupby, request))"
    by blast
  from count_rewrite_built [OF mc b] b show ?thesis by blast
qed

text \<open>
  A model neither of whose columns is \<^verbatim>\<open>project_id\<close> never gets a request, whatever the
  keys: no column gives project ids, and \<^verbatim>\<open>set.intersection\<close> is called without an
  argument, if nothing has raised before.
\<close>

lemma build_request_no_project_column:
  assumes "model_columns model = Some (model_group, model_aggregate)"
    and "model_group \<noteq> Some ''project_id''" and "model_aggregate \<noteq> Some ''project_id''"
  shows "isl (build_request w model keys start end' rollup environment_id aggregation
                group_on_model group_on_time)"
proof -
  have "resolve_project_ids (py_dict [(model_group, top_keys), (model_aggregate, second_keys)])
          = Inl TypeError" for top_keys second_keys
    using assms(2,3)
    by (simp add: resolve_project_ids_def py_dict_def get_project_ids_def)
  with assms(1) show ?thesis
    by (simp add: build_request_def Let_def split: sum.splits prod.splits)
qed

text \<open>
  Claim C5. The claim is about every model with an aggregate column. For three of the five,
  \<^verbatim>\<open>users_affected_by_group\<close>, \<^verbatim>\<open>frequent_environments_by_group\<close> and
  \<^verbatim>\<open>frequent_releases_by_group\<close>, building a request with the aggregation \<^verbatim>\<open>count\<close>
  raises on every input, after the rewrite of lines 79 to 83 has been done: there is no
  request with the aggregate column in its group-by list. With the key list \<^verbatim>\<open>[1]\<close> and
  no environment the exception is the TypeError of line 92.
\<close>

theorem count_rewrite_issue_models:
  "isl (build_request w TSDBModel_users_affected_by_group keys start end' rollup environment_id
          ''count'' group_on_model group_on_time)
   \<and> isl (build_request w TSDBModel_frequent_environments_by_group keys start end' rollup
            environment_id ''count'' group_on_model group_on_time)
   \<and> isl (build_request w TSDBModel_frequent_releases_by_group keys start end' rollup
            environment_id ''count'' group_on_model group_on_time)
   \<and> get_data w TSDBModel_users_affected_by_group (PList [PInt 1]) start end' rollup None
        ''count'' group_on_model group_on_time = Inl TypeError
   \<and> get_frequency_totals w TSDBModel_users_affected_by_group (PList [PInt 1]) start end' rollup None
        = Inl TypeError"
proof -
  have "get_data w TSDBModel_users_affected_by_group (PList [PInt 1]) start end' rollup None
        ''count'' group_on_model group_on_time = Inl TypeError" for group_on_model group_on_time
    by (simp add: get_data_def build_request_def normalize_keys_def py_dict_def
        groupby_columns_def environment_condition_def resolve_project_ids_def get_project_ids_def
        split: prod.splits)
  then show ?thesis
    by (simp add: build_request_no_project_column get_frequency_totals_def)
qed

subsection \<open>The environment filter\<close>

lemma environment_condition_in_request:
  assumes "build_request w model keys start end' rollup (Some environment_id) aggregation
             group_on_model group_on_time = Inr (Some (groupby, request))"
  shows "\<exists>name cs. get_environment_name w environment_id = Inr name
           \<and> map_of request ''conditions'' = Some (PList cs)
           \<and> PTuple [PStr ''environment'', PStr ''='', PStr name] \<in> set cs"
proof -
  from assms obtain model_group model_aggregate top_keys second_keys model_aggregate' conditions
      project_ids issues
    where ec: "environment_condition w (Some environment_id)
                 (key_conditions (py_dict [(model_group, top_keys), (model_aggregate, second_keys)]))
                 = Inr conditions"
      and ar: "assemble_request w start end' conditions groupby project_ids aggregation model_aggregate'
                 rollup issues = Inr request"
    by (rule build_request_Some)
  from environment_condition_Some [OF ec] obtain name
    where name: "environment_names w environment_id = Some name"
      and "(''environment'', ''='', PStr name) \<in> set conditions"
    by auto
  then have "PTuple [PStr ''environment'', PStr ''='', PStr name] \<in> set (map encode_condition conditions)"
    by (force simp: encode_condition_def)
  with assemble_request_fields(1) [OF ar] name show ?thesis
    by (auto simp: get_environment_name_def)
qed

text \<open>
  Claim C9. When an environment id is given, every request that is built went through
  \<^verbatim>\<open>get_environment_name\<close>, which returned a name, and the conditions of the request
  contain \<^verbatim>\<open>('environment', '=', name)\<close>, for any model, keys and aggregation. And such
  requests are built: for a model grouped by \<^verbatim>\<open>project_id\<close>, a non-empty list of hashable
  project keys, both ends of the range and an environment id that resolves to a name,
  \<^verbatim>\<open>get_data\<close> builds a request whose conditions contain the triple with that name.
\<close>

theorem environment_filter:
  "(build_request w model keys start end' rollup (Some environment_id) aggregation
      group_on_model group_on_time = Inr (Some (groupby, request))
    \<longrightarrow> (\<exists>name cs. get_environment_name w environment_id = Inr name
           \<and> map_of request ''conditions'' = Some (PList cs)
           \<and> PTuple [PStr ''environment'', PStr ''='', PStr name] \<in> set cs))
   \<and> (model_columns model = Some (Some ''project_id'', model_aggregate)
        \<and> ids \<noteq> [] \<and> list_all hashable ids
        \<and> environment_names w environment_id = Some name'
    \<longrightarrow> (\<exists>groupby' request' cs.
           build_request w model (PList ids) (Some s) (Some e) rollup (Some environment_id)
             aggregation group_on_model group_on_time = Inr (Some (groupby', request'))
           \<and> map_of request' ''conditions'' = Some (PList cs)
           \<and> PTuple [PStr ''environment'', PStr ''='', PStr name'] \<in> set cs))"
proof (intro conjI impI)
  assume "build_request w model keys start end' rollup (Some environment_id) aggregation
      group_on_model group_on_time = Inr (Some (groupby, request))"
  then show "\<exists>name cs. get_environment_name w environment_id = Inr name
           \<and> map_of request ''conditions'' = Some (PList cs)
           \<and> PTuple [PStr ''environment'', PStr ''='', PStr name] \<in> set cs"
    by (rule environment_condition_in_request)
next
  assume h: "model_columns model = Some (Some ''project_id'', model_aggregate)
        \<and> ids \<noteq> [] \<and> list_all hashable ids
        \<and> environment_names w environment_id = Some name'"
  let ?kc = "key_conditions (py_dict [(Some ''project_id'', PList ids), (model_aggregate, PNone)])"
  from h have ec: "environment_condition w (Some environment_id) ?kc
                     = Inr (?kc @ [(''environment'', ''='', PStr name')])"
    by (simp add: environment_condition_def get_environment_name_def)
  from h have mc: "model_columns model = Some (Some ''project_id'', model_aggregate)"
    and ids: "ids \<noteq> []" "list_all hashable ids" by simp_all
  from build_request_project_keys [OF mc ids ec] obtain groupby' request'
    where b: "build_request w model (PList ids) (Some s) (Some e) rollup (Some environment_id)
                aggregation group_on_model group_on_time = Inr (Some (groupby', request'))"
    by blast
  from environment_condition_in_request [OF b] h obtain cs
    where "map_of request' ''conditions'' = Some (PList cs)"
      and "PTuple [PStr ''environment'', PStr ''='', PStr name'] \<in> set cs"
    by (auto simp: get_environment_name_def)
  with b show "\<exists>groupby' request' cs.
           build_request w model (PList ids) (Some s) (Some e) rollup (Some environment_id)
             aggregation group_on_model group_on_time = Inr (Some (groupby', request'))
           \<and> map_of request' ''conditions'' = Some (PList cs)
           \<and> PTuple [PStr ''environment'', PStr ''='', PStr name'] \<in> set cs"
    by blast
qed

text \<open>
  Environment 7 resolves to ``production'': the request built for
  \<^verbatim>\<open>users_affected_by_project\<close> and the project key 1 carries the condition.
\<close>

theorem environment_filter_witness:
  "model_columns TSDBModel_users_affected_by_project = Some (Some ''project_id'', Some ''user_id'')
   \<and> environment_names (example_world empty_response) 7 = Some ''production''
   \<and> (\<exists>groupby request cs.
         build_request (example_world empty_response) TSDBModel_users_affected_by_project
           (PList [PInt 1]) (Some ''2024-01-01T00:00:00'') (Some ''2024-01-02T00:00:00'') None (Some 7)
           ''count'' True True = Inr (Some (groupby, request))
         \<and> map_of request ''conditions'' = Some (PList cs)
         \<and> PTuple [PStr ''environment'', PStr ''='', PStr ''production''] \<in> set cs)"
proof -
  have h: "model_columns TSDBModel_users_affected_by_project = Some (Some ''project_id'', Some ''user_id'')
      \<and> [PInt 1] \<noteq> [] \<and> list_all hashable [PInt 1]
      \<and> environment_names (example_world empty_response) 7 = Some ''production''"
    by (simp add: example_world_def)
  from environment_filter [THEN conjunct2, rule_format, OF h] h show ?thesis by blast
qed

subsection \<open>Scrubbing\<close>

lemma scrub_time_Inr:
  assumes "(case map_of d ''time'' of
              None \<Rightarrow> Inr d
            | Some (PStr s) \<Rightarrow>
                (case parse_timestamp w s of
                   None \<Rightarrow> Inl ValueError
                 | Some t \<Rightarrow> Inr (AList.update ''time'' (PInt t) d))
            | Some _ \<Rightarrow> Inl TypeError) = Inr d1"
  shows "(case map_of d ''time'' of
            None \<Rightarrow> d1 = d
          | Some t \<Rightarrow> \<exists>s n. t = PStr s \<and> parse_timestamp w s = Some n
                        \<and> d1 = AList.update ''time'' (PInt n) d)"
  using assms by (simp split: option.splits pyval.splits)

lemma scrub_row_Inr:
  assumes "scrub_row w d = Inr d'"
  shows "(\<exists>a. map_of d ''aggregate'' = Some a
              \<and> map_of d' ''aggregate'' = Some (if a = PNone then PInt 0 else a))
         \<and> (case map_of d ''time'' of
               None \<Rightarrow> map_of d' ''time'' = None
             | Some t \<Rightarrow> \<exists>s n. t = PStr s \<and> parse_timestamp w s = Some n
                           \<and> map_of d' ''time'' = Some (PInt n))
         \<and> (\<forall>k. k \<noteq> ''time'' \<longrightarrow> k \<noteq> ''aggregate'' \<longrightarrow> map_of d' k = map_of d k)"
proof -
  from assms obtain d1 a where t: "(case map_of d ''time'' of
              None \<Rightarrow> Inr d
            | Some (PStr s) \<Rightarrow>
                (case parse_timestamp w s of
                   None \<Rightarrow> Inl ValueError
                 | Some t \<Rightarrow> Inr (AList.update ''time'' (PInt t) d))
            | Some _ \<Rightarrow> Inl TypeError) = Inr d1"
    and a: "map_of d1 ''aggregate'' = Some a"
    and d': "d' = (if a = PNone then AList.update ''aggregate'' (PInt 0) d1 else d1)"
    unfolding scrub_row_def by (simp split: sum.splits option.splits)
  note t' = scrub_time_Inr [OF t]
  show ?thesis
  proof (cases "map_of d ''time''")
    case None
    with t' have "d1 = d" by simp
    with a d' None show ?thesis by (simp add: update_conv')
  next
    case (Some x)
    with t' obtain s n where "x = PStr s" "parse_timestamp w s = Some n"
      "d1 = AList.update ''time'' (PInt n) d" by auto
    with a d' Some show ?thesis by (simp add: update_conv')
  qed
qed

text \<open>
  Claim C7, as the code has it. When scrubbing succeeds, every row had an \<^verbatim>\<open>aggregate\<close>
  entry; a None there has become 0 and any other value is unchanged, whatever its type. A
  row with a \<^verbatim>\<open>time\<close> entry had a string there, and the entry is now the integer that
  parsing the string gives. The other entries of the row are untouched.
\<close>

theorem scrub_rows:
  assumes "scrub w rows = Inr rows'" and "i < length rows"
  shows "length rows' = length rows
         \<and> (\<exists>a. map_of (rows ! i) ''aggregate'' = Some a
              \<and> map_of (rows' ! i) ''aggregate'' = Some (if a = PNone then PInt 0 else a))
         \<and> (case map_of (rows ! i) ''time'' of
               None \<Rightarrow> map_of (rows' ! i) ''time'' = None
             | Some t \<Rightarrow> \<exists>s n. t = PStr s \<and> parse_timestamp w s = Some n
                           \<and> map_of (rows' ! i) ''time'' = Some (PInt n))
         \<and> (\<forall>k. k \<noteq> ''time'' \<longrightarrow> k \<noteq> ''aggregate''
                \<longrightarrow> map_of (rows' ! i) k = map_of (rows ! i) k)"
proof -
  from assms(1) have m: "map (scrub_row w) rows = map Inr rows'"
    unfolding scrub_def by (rule sequence_sum_Inr)
  then have len: "length rows' = length rows"
    by (metis length_map)
  from m assms(2) len have "scrub_row w (rows ! i) = Inr (rows' ! i)"
    by (metis nth_map)
  from scrub_row_Inr [OF this] len show ?thesis by simp
qed

text \<open>A row with a timestamp string and a null aggregate.\<close>

theorem scrub_rows_witness:
  "scrub (example_world empty_response)
     [[(''project_id'', PInt 1), (''time'', PStr ''2024-01-01T00:00:00Z''), (''aggregate'', PNone)]]
   = Inr [[(''project_id'', PInt 1), (''time'', PInt 1704067200), (''aggregate'', PInt 0)]]
   \<and> map_of [(''project_id'', PInt 1), (''time'', PInt 1704067200), (''aggregate'', PInt 0)] ''aggregate''
     = Some (PInt 0)
   \<and> map_of [(''project_id'', PInt 1), (''time'', PInt 1704067200), (''aggregate'', PInt 0)] ''time''
     = Some (PInt 1704067200)"
proof -
  have s: "scrub (example_world empty_response)
     [[(''project_id'', PInt 1), (''time'', PStr ''2024-01-01T00:00:00Z''), (''aggregate'', PNone)]]
   = Inr [[(''project_id'', PInt 1), (''time'', PInt 1704067200), (''aggregate'', PInt 0)]]"
    by (simp add: scrub_def scrub_row_def example_world_def)
  from scrub_rows [OF s, of 0] s show ?thesis by simp
qed

text \<open>
  The claim as stated fails twice: a row without an \<^verbatim>\<open>aggregate\<close> entry is not given a
  zero, the lookup raises KeyError; and scrubbing leaves the list of a top-K aggregate as
  it is, so not every aggregate is a number afterwards.
\<close>

theorem scrub_counterexample:
  "scrub (example_world empty_response) [[(''project_id'', PInt 1)]] = Inl KeyError
   \<and> scrub (example_world empty_response)
       [[(''project_id'', PInt 1), (''aggregate'', PList [PStr ''b'', PStr ''a''])]]
     = Inr [[(''project_id'', PInt 1), (''aggregate'', PList [PStr ''b'', PStr ''a''])]]"
  by (simp add: scrub_def scrub_row_def example_world_def)



subsection \<open>An absent end of the range\<close>

lemma get_data_end_absent:
  assumes "model_columns model \<noteq> None"
  shows "isl (get_data w model keys start None rollup environment_id aggregation group_on_model group_on_time)"
proof -
  from build_request_end_absent [OF assms, of w keys start rollup environment_id aggregation
      group_on_model group_on_time] obtain e
    where "build_request w model keys start None rollup environment_id aggregation
             group_on_model group_on_time = Inl e"
    by (auto simp: isl_def)
  then show ?thesis by (simp add: get_data_def)
qed

lemma get_data_end_absent_then:
  assumes "model_columns model \<noteq> None"
  shows "isl (case get_data w model keys start None rollup environment_id aggregation
                     group_on_model group_on_time of
                Inl e \<Rightarrow> Inl e
              | Inr result \<Rightarrow> f result)"
proof -
  from get_data_end_absent [OF assms, of w keys start rollup environment_id aggregation
      group_on_model group_on_time] obtain e
    where "get_data w model keys start None rollup environment_id aggregation
             group_on_model group_on_time = Inl e"
    by (auto simp: isl_def)
  then show ?thesis by simp
qed

text \<open>
  Claim C10, as the code has it. For a model of the registry, every operation called with
  \<^verbatim>\<open>end=None\<close> raises: if nothing else has raised before, \<^verbatim>\<open>end.isoformat()\<close> raises
  AttributeError when the request is put together.
\<close>

theorem end_absent_fails:
  assumes "model_columns model \<noteq> None"
  shows "isl (get_range w model keys start None rollup environment_id)
         \<and> isl (get_distinct_counts_series w model keys start None rollup environment_id)
         \<and> isl (get_distinct_counts_totals w model keys start None rollup environment_id)
         \<and> isl (get_distinct_counts_union w model keys start None rollup environment_id)
         \<and> isl (get_most_frequent w model keys start None rollup limit environment_id)
         \<and> isl (get_most_frequent_series w model keys start None rollup limit environment_id)
         \<and> isl (get_frequency_series w model keys start None rollup environment_id)
         \<and> isl (get_frequency_totals w model keys start None rollup environment_id)"
proof -
  note a = get_data_end_absent [OF assms] and b = get_data_end_absent_then [OF assms]
  have "isl (get_range w model keys start None rollup environment_id)"
    unfolding get_range_def by (rule b)
  moreover have "isl (get_distinct_counts_series w model keys start None rollup environment_id)"
    unfolding get_distinct_counts_series_def by (rule b)
  moreover have "isl (get_distinct_counts_totals w model keys start None rollup environment_id)"
    unfolding get_distinct_counts_totals_def by (rule a)
  moreover have "isl (get_distinct_counts_union w model keys start None rollup environment_id)"
    unfolding get_distinct_counts_union_def by (rule a)
  moreover have "isl (get_most_frequent w model keys start None rollup limit environment_id)"
    unfolding get_most_frequent_def by (rule b)
  moreover have "isl (get_most_frequent_series w model keys start None rollup limit environment_id)"
    unfolding get_most_frequent_series_def by (rule b)
  moreover have "isl (get_frequency_series w model keys start None rollup environment_id)"
    unfolding get_frequency_series_def by (rule b)
  moreover have "isl (get_frequency_totals w model keys start None rollup environment_id)"
    unfolding get_frequency_totals_def by (rule a)
  ultimately show ?thesis by blast
qed

text \<open>The model \<^verbatim>\<open>project\<close> is in the registry.\<close>

theorem end_absent_fails_witness:
  "model_columns TSDBModel_project \<noteq> None
   \<and> isl (get_range (example_world empty_response) TSDBModel_project (PList [PInt 1])
            (Some ''2024-01-01T00:00:00'') None None None)
   \<and> isl (get_distinct_counts_totals (example_world empty_response) TSDBModel_project (PList [PInt 1])
            (Some ''2024-01-01T00:00:00'') None None None)"
proof -
  have m: "model_columns TSDBModel_project \<noteq> None" by simp
  from end_absent_fails [OF m] m show ?thesis by blast
qed

text \<open>
  For a model outside the registry \<^verbatim>\<open>get_data\<close> returns None before it looks at
  \<^verbatim>\<open>end\<close>, and \<^verbatim>\<open>get_distinct_counts_totals\<close> returns that None: the call does not
  fail, although \<^verbatim>\<open>end\<close> is absent.
\<close>

theorem end_absent_counterexample:
  "get_distinct_counts_totals (example_world empty_response) (TSDBModel_unlisted 0) (PList [PInt 1])
     (Some ''2024-01-01T00:00:00'') None None None = Inr PNone"
  by (simp add: get_distinct_counts_totals_def get_data_def build_request_def)

subsection \<open>Scores of the most frequent values\<close>

text \<open>
  The loop body reverses the ranked list, numbers it from 1, and reverses it again: the
  values come back in the order of the backend, the value at index \<open>i\<close> of \<open>k\<close> values
  with the score \<open>k - i\<close>.
\<close>

lemma item_scores_list:
  "item_scores (PList vs) = Inr (map (\<lambda>i. (vs ! i, real (length vs - i))) [0..<length vs])"
proof -
  let ?n = "length vs"
  have "rev (map (\<lambda>(i, x). (x, real (i + 1))) (enumerate 0 (rev vs)))
        = map (\<lambda>i. (vs ! i, real (?n - i))) [0..<?n]"
  proof (rule nth_equalityI)
    show "length (rev (map (\<lambda>(i, x). (x, real (i + 1))) (enumerate 0 (rev vs))))
          = length (map (\<lambda>i. (vs ! i, real (?n - i))) [0..<?n])"
      by simp
  next
    fix j
    assume "j < length (rev (map (\<lambda>(i, x). (x, real (i + 1))) (enumerate 0 (rev vs))))"
    then have j: "j < ?n" by simp
    then have "?n - Suc j < ?n" by simp
    with j show "rev (map (\<lambda>(i, x). (x, real (i + 1))) (enumerate 0 (rev vs))) ! j
          = map (\<lambda>i. (vs ! i, real (?n - i))) [0..<?n] ! j"
      by (simp add: rev_nth nth_enumerate_eq Suc_diff_Suc)
  qed
  then show ?thesis by (simp add: item_scores_def py_reversed_def)
qed

text \<open>
  Claim C2, as the code has it. For every group whose ranked values are \<open>v_1..v_k\<close>, the
  value at rank \<open>i\<close> gets the score \<open>k - i + 1\<close> (index \<open>i - 1\<close> below), and the list
  for the group keeps the order of the ranks: the scores strictly descend, the most
  frequent value comes first.
\<close>

theorem get_most_frequent_scores:
  assumes "get_data w model keys start end' rollup environment_id (topK limit) True False
             = Inr (PDict kvs)"
    and "map_of kvs g = Some (PList vs)"
    and "get_most_frequent w model keys start end' rollup limit environment_id = Inr res"
  shows "\<exists>scores. map_of res g = Some scores
           \<and> length scores = length vs
           \<and> (\<forall>i < length vs. scores ! i = (vs ! i, real (length vs - i)))
           \<and> sorted_wrt (\<lambda>a b. snd b < snd a) scores"
proof -
  let ?scores = "map (\<lambda>i. (vs ! i, real (length vs - i))) [0..<length vs]"
  from assms(1,3) have "map_values item_scores kvs = Inr res"
    by (simp add: get_most_frequent_def iter_result_def)
  from map_values_lookup [OF this assms(2)] have "map_of res g = Some ?scores"
    by (simp add: item_scores_list)
  moreover have "sorted_wrt (\<lambda>a b. snd b < snd a) ?scores"
    by (simp add: sorted_wrt_iff_nth_less)
  ultimately show ?thesis by simp
qed

text \<open>The backend ranks ``b'' before ``a'' for project 1, with limit 2.\<close>

lemma example_topk_data:
  "get_data (example_world topk_response) TSDBModel_frequent_issues_by_project (PList [PInt 1])
     (Some ''2024-01-01T00:00:00'') (Some ''2024-01-02T00:00:00'') None None (topK 2) True False
   = Inr (PDict [(PInt 1, PList [PStr ''b'', PStr ''a''])])"
  by (simp add: example_defs topK_def topk_response_def)

text \<open>
  On that input the result is \<^verbatim>\<open>[('b', 2.0), ('a', 1.0)]\<close>, not the ascending list
  \<^verbatim>\<open>[('a', 1.0), ('b', 2.0)]\<close> of the claim.
\<close>

theorem get_most_frequent_order_counterexample:
  "get_most_frequent (example_world topk_response) TSDBModel_frequent_issues_by_project (PList [PInt 1])
     (Some ''2024-01-01T00:00:00'') (Some ''2024-01-02T00:00:00'') None 2 None
   = Inr [(PInt 1, [(PStr ''b'', 2), (PStr ''a'', 1)])]
   \<and> get_most_frequent (example_world topk_response) TSDBModel_frequent_issues_by_project (PList [PInt 1])
     (Some ''2024-01-01T00:00:00'') (Some ''2024-01-02T00:00:00'') None 2 None
   \<noteq> Inr [(PInt 1, [(PStr ''a'', 1), (PStr ''b'', 2)])]"
  by (simp add: get_most_frequent_def example_topk_data iter_result_def map_values_def
      item_scores_def py_reversed_def enumerate_eq_zip)

text \<open>The same input, through the theorem.\<close>

theorem get_most_frequent_scores_witness:
  "get_most_frequent (example_world topk_response) TSDBModel_frequent_issues_by_project (PList [PInt 1])
     (Some ''2024-01-01T00:00:00'') (Some ''2024-01-02T00:00:00'') None 2 None
   = Inr [(PInt 1, [(PStr ''b'', 2), (PStr ''a'', 1)])]
   \<and> (\<exists>scores. map_of [(PInt 1, [(PStr ''b'', 2::real), (PStr ''a'', 1)])] (PInt 1) = Some scores
         \<and> length scores = length [PStr ''b'', PStr ''a'']
         \<and> (\<forall>i < length [PStr ''b'', PStr ''a''].
               scores ! i = ([PStr ''b'', PStr ''a''] ! i, real (length [PStr ''b'', PStr ''a''] - i)))
         \<and> sorted_wrt (\<lambda>a b. snd b < snd a) scores)"
proof -
  have r: "get_most_frequent (example_world topk_response) TSDBModel_frequent_issues_by_project
     (PList [PInt 1]) (Some ''2024-01-01T00:00:00'') (Some ''2024-01-02T00:00:00'') None 2 None
   = Inr [(PInt 1, [(PStr ''b'', 2), (PStr ''a'', 1)])]"
    by (simp add: get_most_frequent_def example_topk_data iter_result_def map_values_def
        item_scores_def py_reversed_def enumerate_eq_zip)
  have l: "map_of [(PInt 1, PList [PStr ''b'', PStr ''a''])] (PInt 1) = Some (PList [PStr ''b'', PStr ''a''])"
    by simp
  from get_most_frequent_scores [OF example_topk_data l r] r show ?thesis by blast
qed

end
